theory Spec2Isabelle
  imports Main
begin

section \<open>The crafting game: script state and operations\<close>

text \<open>
  The script \<^verbatim>\<open>src/CraftingGame/script.js\<close> keeps its whole state in module-level
  variables: the wallet \<^verbatim>\<open>money\<close>, eight resource counters, and nine page elements whose
  \<^verbatim>\<open>innerHTML\<close> it writes. The three functions \<^verbatim>\<open>buy\<close>, \<^verbatim>\<open>craft\<close> and
  \<^verbatim>\<open>sell\<close> read and assign these variables. Here the variables are the fields of one
  record, and each function takes the state and returns the state it leaves behind.

  Numbers: every literal in the script is an integer and the specification describes the
  wallet and the counters as integers, so JavaScript numbers are modelled as \<open>int\<close>
  (prices included); fractional and non-numeric arguments are outside the model.
  A JavaScript number is a binary64 floating-point value: sums and differences of integers
  are exact as long as the operands and the result lie between \<open>- (2^53 - 1)\<close> and
  \<open>2^53 - 1\<close>, the safe integers, and may be rounded beyond. The functions below compute
  on \<open>int\<close> without rounding, so they agree with the script on the safe integers only.
  The counters move by one or two per call and leave that range in no session that can
  be played; the wallet moves by prices that the caller chooses, so the theorems on the
  arithmetic of \<open>buy\<close> and \<open>sell\<close> carry the range as a hypothesis (\<open>safe_state\<close>,
  \<open>safe_integer\<close>, defined below).
  The diagnostic channel \<^verbatim>\<open>console.error\<close> is the list \<open>console\<close> of the messages
  written so far, oldest first.
\<close>

subsection \<open>Rendering a number into an element\<close>

text \<open>
  Assigning a number to \<^verbatim>\<open>innerHTML\<close>, or adding it to a string, converts it to its
  decimal representation, with a leading minus sign for a negative value. This is what
  JavaScript prints for an integer of magnitude below \<open>10^21\<close>, the safe integers among
  them; from there on it prints an exponent, which \<open>string_of_number\<close> does not.
\<close>

definition digit :: "nat \<Rightarrow> char" where
  "digit d = ''0123456789'' ! d"

text \<open>The digits of \<open>n\<close>, most significant first, in front of the text \<open>rest\<close>.\<close>

fun digits_before :: "nat \<Rightarrow> string \<Rightarrow> string" where
  "digits_before n rest =
     (if 10 \<le> n then digits_before (n div 10) (digit (n mod 10) # rest)
      else digit n # rest)"

declare digits_before.simps [simp del]

definition string_of_number :: "int \<Rightarrow> string" where
  "string_of_number i =
     (if 0 \<le> i then digits_before (nat i) []
      else CHR ''-'' # digits_before (nat (- i)) [])"

subsection \<open>State\<close>

record state =
  game_hidden :: bool
  display :: string
  milkDisplay :: string
  breadDisplay :: string
  plateDisplay :: string
  milkbreadDisplay :: string
  milksandwichDisplay :: string
  milkmealDisplay :: string
  cheeseDisplay :: string
  cheesesandwichDisplay :: string
  money :: int
  milk :: int
  bread :: int
  plate :: int
  milkbread :: int
  milksandwich :: int
  milkmeal :: int
  cheesesandwich :: int
  cheese :: int
  console :: "string list"

text \<open>
  Modelled from the spec: the page markup is not part of the sources, so the text that
  the eight counter elements hold before the first operation is taken from the
  specification, which has the presentation layer render all counters at zero. Everything
  else below is what the top level of the script assigns (lines 2 to 31).
\<close>

definition init_state :: state where
  "init_state =
     \<lparr> game_hidden = False,
       display = ''$'' @ string_of_number 10,
       milkDisplay = ''0'',
       breadDisplay = ''0'',
       plateDisplay = ''0'',
       milkbreadDisplay = ''0'',
       milksandwichDisplay = ''0'',
       milkmealDisplay = ''0'',
       cheeseDisplay = ''0'',
       cheesesandwichDisplay = ''0'',
       money = 10,
       milk = 0,
       bread = 0,
       plate = 0,
       milkbread = 0,
       milksandwich = 0,
       milkmeal = 0,
       cheesesandwich = 0,
       cheese = 0,
       console = [] \<rparr>"

subsection \<open>buy\<close>

text \<open>
  Lines 34 to 52. The price is taken from the wallet before the item name is looked at;
  the last branch gives it back and writes the diagnostic. The wallet element is rewritten
  on every call, whether or not the guard held.
\<close>

definition buy :: "int \<Rightarrow> string \<Rightarrow> state \<Rightarrow> state" where
  "buy price item s =
     (let s1 =
        (if money s \<ge> price then
           (let s2 = s\<lparr>money := money s - price\<rparr> in
            if item = ''milk'' then
              (let s3 = s2\<lparr>milk := milk s2 + 1\<rparr> in
               s3\<lparr>milkDisplay := string_of_number (milk s3)\<rparr>)
            else if item = ''bread'' then
              (let s3 = s2\<lparr>bread := bread s2 + 1\<rparr> in
               s3\<lparr>breadDisplay := string_of_number (bread s3)\<rparr>)
            else if item = ''plate'' then
              (let s3 = s2\<lparr>plate := plate s2 + 1\<rparr> in
               s3\<lparr>plateDisplay := string_of_number (plate s3)\<rparr>)
            else
              (let s3 = s2\<lparr>money := money s2 + price\<rparr> in
               s3\<lparr>console := console s3 @ [''item not registered'']\<rparr>))
         else s)
      in s1\<lparr>display := '' $'' @ string_of_number (money s1)\<rparr>)"

subsection \<open>craft\<close>

text \<open>
  Lines 55 to 100. Five recipes, each behind its own guard on the input counters; a name
  that is none of the five falls through the chain and nothing happens.
\<close>

definition craft :: "string \<Rightarrow> state \<Rightarrow> state" where
  "craft item s =
     (if item = ''milkbread'' then
        (if milk s > 0 \<and> bread s > 0 then
           (let s1 = s\<lparr>bread := bread s - 1\<rparr>;
                s2 = s1\<lparr>milk := milk s1 - 1\<rparr>;
                s3 = s2\<lparr>milkbread := milkbread s2 + 1\<rparr>;
                s4 = s3\<lparr>breadDisplay := string_of_number (bread s3)\<rparr>;
                s5 = s4\<lparr>milkDisplay := string_of_number (milk s4)\<rparr>
            in s5\<lparr>milkbreadDisplay := string_of_number (milkbread s5)\<rparr>)
         else s)
      else if item = ''milksandwich'' then
        (if milkbread s > 1 then
           (let s1 = s\<lparr>milkbread := milkbread s - 2\<rparr>;
                s2 = s1\<lparr>milksandwich := milksandwich s1 + 1\<rparr>;
                s3 = s2\<lparr>milkbreadDisplay := string_of_number (milkbread s2)\<rparr>
            in s3\<lparr>milksandwichDisplay := string_of_number (milksandwich s3)\<rparr>)
         else s)
      else if item = ''milkmeal'' then
        (if milksandwich s > 0 \<and> milk s > 0 \<and> plate s > 0 then
           (let s1 = s\<lparr>milksandwich := milksandwich s - 1\<rparr>;
                s2 = s1\<lparr>milk := milk s1 - 1\<rparr>;
                s3 = s2\<lparr>plate := plate s2 - 1\<rparr>;
                s4 = s3\<lparr>milkmeal := milkmeal s3 + 1\<rparr>;
                s5 = s4\<lparr>milksandwichDisplay := string_of_number (milksandwich s4)\<rparr>;
                s6 = s5\<lparr>milkDisplay := string_of_number (milk s5)\<rparr>;
                s7 = s6\<lparr>plateDisplay := string_of_number (plate s6)\<rparr>
            in s7\<lparr>milkmealDisplay := string_of_number (milkmeal s7)\<rparr>)
         else s)
      else if item = ''cheese'' then
        (if milk s > 0 then
           (let s1 = s\<lparr>milk := milk s - 1\<rparr>;
                s2 = s1\<lparr>cheese := cheese s1 + 1\<rparr>;
                s3 = s2\<lparr>milkDisplay := string_of_number (milk s2)\<rparr>
            in s3\<lparr>cheeseDisplay := string_of_number (cheese s3)\<rparr>)
         else s)
      else if item = ''cheesesandwich'' then
        (if cheese s > 0 \<and> bread s > 1 then
           (let s1 = s\<lparr>cheese := cheese s - 1\<rparr>;
                s2 = s1\<lparr>bread := bread s1 - 2\<rparr>;
                s3 = s2\<lparr>cheesesandwich := cheesesandwich s2 + 1\<rparr>;
                s4 = s3\<lparr>cheeseDisplay := string_of_number (cheese s3)\<rparr>;
                s5 = s4\<lparr>breadDisplay := string_of_number (bread s4)\<rparr>
            in s5\<lparr>cheesesandwichDisplay := string_of_number (cheesesandwich s5)\<rparr>)
         else s)
      else s)"

subsection \<open>sell\<close>

text \<open>
  Lines 103 to 131. The first three branches test the stock before they take one unit;
  the branch for \<^verbatim>\<open>cheesesandwich\<close> (lines 125 to 130) has no test.
\<close>

definition sell :: "int \<Rightarrow> string \<Rightarrow> state \<Rightarrow> state" where
  "sell price item s =
     (if item = ''milkbread'' then
        (if milkbread s > 0 then
           (let s1 = s\<lparr>milkbread := milkbread s - 1\<rparr>;
                s2 = s1\<lparr>money := money s1 + price\<rparr>;
                s3 = s2\<lparr>milkbreadDisplay := string_of_number (milkbread s2)\<rparr>
            in s3\<lparr>display := ''$'' @ string_of_number (money s3)\<rparr>)
         else s)
      else if item = ''milksandwich'' then
        (if milksandwich s > 0 then
           (let s1 = s\<lparr>milksandwich := milksandwich s - 1\<rparr>;
                s2 = s1\<lparr>money := money s1 + price\<rparr>;
                s3 = s2\<lparr>milksandwichDisplay := string_of_number (milksandwich s2)\<rparr>
            in s3\<lparr>display := ''$'' @ string_of_number (money s3)\<rparr>)
         else s)
      else if item = ''milkmeal'' then
        (if milkmeal s > 0 then
           (let s1 = s\<lparr>milkmeal := milkmeal s - 1\<rparr>;
                s2 = s1\<lparr>money := money s1 + price\<rparr>;
                s3 = s2\<lparr>milkmealDisplay := string_of_number (milkmeal s2)\<rparr>
            in s3\<lparr>display := ''$'' @ string_of_number (money s3)\<rparr>)
         else s)
      else if item = ''cheesesandwich'' then
        (let s1 = s\<lparr>cheesesandwich := cheesesandwich s - 1\<rparr>;
             s2 = s1\<lparr>money := money s1 + price\<rparr>;
             s3 = s2\<lparr>cheesesandwichDisplay := string_of_number (cheesesandwich s2)\<rparr>
         in s3\<lparr>display := ''$'' @ string_of_number (money s3)\<rparr>)
      else s)"

subsection \<open>Sequences of operations\<close>

text \<open>
  The page calls the three functions one at a time, each to completion. A play session is
  a list of calls, applied from left to right.
\<close>

datatype operation = Buy int string | Craft string | Sell int string

fun step :: "operation \<Rightarrow> state \<Rightarrow> state" where
  "step (Buy price item) s = buy price item s"
| "step (Craft item) s = craft item s"
| "step (Sell price item) s = sell price item s"

fun run :: "operation list \<Rightarrow> state \<Rightarrow> state" where
  "run [] s = s"
| "run (x # xs) s = run xs (step x s)"

subsection \<open>Reading the counters\<close>

text \<open>
  The specification speaks of a mapping from resource to quantity. The script has one
  variable per resource; \<open>counters\<close> reads the eight of them as such a mapping, and
  \<open>resource_name\<close> gives the string by which the functions know each resource.
\<close>

datatype resource =
  Milk | Bread | Plate | Milkbread | Milksandwich | Milkmeal | Cheesesandwich | Cheese

fun resource_name :: "resource \<Rightarrow> string" where
  "resource_name Milk = ''milk''"
| "resource_name Bread = ''bread''"
| "resource_name Plate = ''plate''"
| "resource_name Milkbread = ''milkbread''"
| "resource_name Milksandwich = ''milksandwich''"
| "resource_name Milkmeal = ''milkmeal''"
| "resource_name Cheesesandwich = ''cheesesandwich''"
| "resource_name Cheese = ''cheese''"

fun counters :: "state \<Rightarrow> resource \<Rightarrow> int" where
  "counters s Milk = milk s"
| "counters s Bread = bread s"
| "counters s Plate = plate s"
| "counters s Milkbread = milkbread s"
| "counters s Milksandwich = milksandwich s"
| "counters s Milkmeal = milkmeal s"
| "counters s Cheesesandwich = cheesesandwich s"
| "counters s Cheese = cheese s"

text \<open>The invariant of the specification: the wallet and every counter are at least zero.\<close>

definition non_negative :: "state \<Rightarrow> bool" where
  "non_negative s \<longleftrightarrow>
     0 \<le> money s \<and> 0 \<le> milk s \<and> 0 \<le> bread s \<and> 0 \<le> plate s \<and> 0 \<le> milkbread s \<and>
     0 \<le> milksandwich s \<and> 0 \<le> milkmeal s \<and> 0 \<le> cheesesandwich s \<and> 0 \<le> cheese s"

text \<open>
  The safe integers of JavaScript (\<^verbatim>\<open>Number.MAX_SAFE_INTEGER\<close> is \<open>2^53 - 1\<close>), and the
  states all of whose numbers are safe integers.
\<close>

definition max_safe_integer :: int where
  "max_safe_integer = 9007199254740991"

definition safe_integer :: "int \<Rightarrow> bool" where
  "safe_integer x \<longleftrightarrow> - max_safe_integer \<le> x \<and> x \<le> max_safe_integer"

definition safe_state :: "state \<Rightarrow> bool" where
  "safe_state s \<longleftrightarrow>
     safe_integer (money s) \<and> safe_integer (milk s) \<and> safe_integer (bread s) \<and>
     safe_integer (plate s) \<and> safe_integer (milkbread s) \<and> safe_integer (milksandwich s) \<and>
     safe_integer (milkmeal s) \<and> safe_integer (cheesesandwich s) \<and> safe_integer (cheese s)"

text \<open>
  A call is \<open>in_stock\<close> when it is not a sale at a negative price and not a sale of a
  cheese sandwich that is not there; \<open>admissible\<close> asks this of every call of a session,
  each in the state the calls before it have produced.
\<close>

fun in_stock :: "operation \<Rightarrow> state \<Rightarrow> bool" where
  "in_stock (Buy price item) s = True"
| "in_stock (Craft item) s = True"
| "in_stock (Sell price item) s =
     (0 \<le> price \<and> (if item = ''cheesesandwich'' then 1 \<le> cheesesandwich s else True))"

fun admissible :: "operation list \<Rightarrow> state \<Rightarrow> bool" where
  "admissible [] s = True"
| "admissible (x # xs) s = (in_stock x s \<and> admissible xs (step x s))"

text \<open>The recipe chain scenario of the specification, as a session.\<close>

definition chain :: "operation list" where
  "chain =
     [Buy 1 ''milk'', Buy 1 ''bread'', Craft ''milkbread'', Craft ''milksandwich'',
      Buy 1 ''milk'', Buy 1 ''bread'', Craft ''milkbread'', Craft ''milksandwich'']"

text \<open>The state in which one milk bread has been made and nothing sold yet.\<close>

definition one_milkbread :: state where
  "one_milkbread = run [Buy 1 ''milk'', Buy 1 ''bread'', Craft ''milkbread''] init_state"

section \<open>Auxiliary facts\<close>

lemma string_of_number_examples:
  "string_of_number 0 = ''0''" "string_of_number 10 = ''10''"
  "string_of_number (- 1) = ''-1''" "string_of_number 2048 = ''2048''"
  by (simp_all add: string_of_number_def digits_before.simps digit_def)

lemma init_state_display: "display init_state = ''$10''"
  by (simp add: init_state_def string_of_number_examples)

lemma resource_all:
  "(\<forall>r. P r) \<longleftrightarrow>
     P Milk \<and> P Bread \<and> P Plate \<and> P Milkbread \<and> P Milksandwich \<and> P Milkmeal \<and>
     P Cheesesandwich \<and> P Cheese"
proof
  assume "\<forall>r. P r"
  then show "P Milk \<and> P Bread \<and> P Plate \<and> P Milkbread \<and> P Milksandwich \<and> P Milkmeal \<and>
     P Cheesesandwich \<and> P Cheese"
    by simp
next
  assume each: "P Milk \<and> P Bread \<and> P Plate \<and> P Milkbread \<and> P Milksandwich \<and> P Milkmeal \<and>
     P Cheesesandwich \<and> P Cheese"
  show "\<forall>r. P r"
  proof
    fix r
    show "P r" using each by (cases r) simp_all
  qed
qed

text \<open>Two states have the same counters exactly when the eight variables agree.\<close>

lemma counters_eq_iff:
  "counters s = f \<longleftrightarrow>
     milk s = f Milk \<and> bread s = f Bread \<and> plate s = f Plate \<and> milkbread s = f Milkbread \<and>
     milksandwich s = f Milksandwich \<and> milkmeal s = f Milkmeal \<and>
     cheesesandwich s = f Cheesesandwich \<and> cheese s = f Cheese"
  by (simp add: fun_eq_iff resource_all)

lemma one_milkbread_fields:
  "money one_milkbread = 8" "milk one_milkbread = 0" "bread one_milkbread = 0"
  "plate one_milkbread = 0" "milkbread one_milkbread = 1" "milksandwich one_milkbread = 0"
  "milkmeal one_milkbread = 0" "cheesesandwich one_milkbread = 0" "cheese one_milkbread = 0"
  "console one_milkbread = []"
  by (simp_all add: one_milkbread_def init_state_def buy_def craft_def Let_def)

lemma max_safe_integer_power: "max_safe_integer = 2 ^ 53 - 1"
  by (simp add: max_safe_integer_def)

lemma safe_state_init: "safe_state init_state"
  by (simp add: safe_state_def safe_integer_def max_safe_integer_def init_state_def)

lemma safe_state_one_milkbread: "safe_state one_milkbread"
  by (simp add: safe_state_def safe_integer_def max_safe_integer_def one_milkbread_fields)

text \<open>
  Within the safe integers the wallet cannot be overdrawn into an unsafe number by a
  price at or above zero that it covers.
\<close>

lemma safe_integer_spend:
  "safe_integer w \<Longrightarrow> 0 \<le> p \<Longrightarrow> p \<le> w \<Longrightarrow> safe_integer (w - p)"
  by (simp add: safe_integer_def max_safe_integer_def)

subsection \<open>Where the invariant is kept\<close>

text \<open>
  \<open>buy\<close> keeps the wallet and the counters at or above zero whatever the price, since it
  spends only what the wallet holds; \<open>craft\<close> takes only what its guard has found. A sale
  keeps them when the price is not negative and, for a cheese sandwich, when one is there.
\<close>

lemma buy_non_negative: "non_negative s \<Longrightarrow> non_negative (buy price item s)"
  by (simp add: non_negative_def buy_def Let_def)

lemma craft_non_negative: "non_negative s \<Longrightarrow> non_negative (craft item s)"
  by (simp add: non_negative_def craft_def Let_def)

lemma sell_non_negative:
  "non_negative s \<Longrightarrow> in_stock (Sell price item) s \<Longrightarrow> non_negative (sell price item s)"
  by (auto simp add: non_negative_def sell_def Let_def split: if_splits)

lemma step_non_negative: "non_negative s \<Longrightarrow> in_stock x s \<Longrightarrow> non_negative (step x s)"
  by (cases x) (simp_all add: buy_non_negative craft_non_negative sell_non_negative del: in_stock.simps)

lemma run_non_negative:
  "non_negative s \<Longrightarrow> admissible ops s \<Longrightarrow> non_negative (run ops s)"
proof (induction ops arbitrary: s)
  case Nil
  then show ?case by simp
next
  case (Cons x xs)
  from Cons.prems have "non_negative (step x s)" and "admissible xs (step x s)"
    by (simp_all add: step_non_negative)
  then show ?case
    using Cons.IH by simp
qed

section \<open>The invariant and the sale of cheese sandwiches\<close>

text \<open>
  Claim C1: for every sequence of buy, craft and sell operations starting from the initial
  state (money 10, all counters 0), the wallet and every resource counter stay at or above
  zero after each operation.

  The script does not keep this. The initial state satisfies the invariant, and the
  one-call session that sells a cheese sandwich leaves the counter at minus one: the
  branch of \<open>sell\<close> for \<^verbatim>\<open>cheesesandwich\<close> lacks the stock test of the other three
  branches. (\<open>run_non_negative\<close> above shows that this branch is the only place where a
  session with prices at or above zero can lose the invariant.)
\<close>

theorem cheesesandwich_sale_breaks_invariant:
  "non_negative init_state \<and>
   cheesesandwich (run [Sell 1 ''cheesesandwich''] init_state) = - 1 \<and>
   \<not> non_negative (run [Sell 1 ''cheesesandwich''] init_state)"
  by (simp add: non_negative_def init_state_def sell_def Let_def)

text \<open>
  Claim C2: for every price, \<open>sell price ''cheesesandwich''\<close> with no cheese sandwich in
  stock is treated as an error and does not drive the counter below zero.

  In the script the call goes through: from the initial state, where the counter is zero,
  it leaves the counter at minus one, pays the price into the wallet, and writes nothing
  to the diagnostic channel.
\<close>

theorem sell_cheesesandwich_unguarded:
  "cheesesandwich init_state = 0 \<and>
   cheesesandwich (sell 5 ''cheesesandwich'' init_state) = - 1 \<and>
   money (sell 5 ''cheesesandwich'' init_state) = 15 \<and>
   console (sell 5 ''cheesesandwich'' init_state) = console init_state"
  by (simp add: init_state_def sell_def Let_def)

section \<open>buy\<close>

text \<open>
  Claim C3: for every price at or above zero and every primary resource \<open>r\<close> (milk, bread,
  plate): if the wallet covers the price, \<open>buy\<close> takes the price from the wallet and adds
  one to the counter of \<open>r\<close>; if the wallet holds less than the price, \<open>buy\<close> leaves the
  wallet and every counter as they were.

  The wallet, the counters and the price are safe integers; the difference then is one
  too (\<open>safe_integer_spend\<close>), and the script computes it exactly. The theorem also says
  that no other counter moves in the first case.
\<close>

theorem buy_primary_resource:
  assumes "0 \<le> price" and "safe_integer price" and "safe_state s"
    and "r \<in> {Milk, Bread, Plate}"
  shows "(price \<le> money s \<longrightarrow>
            money (buy price (resource_name r) s) = money s - price \<and>
            counters (buy price (resource_name r) s) = (counters s)(r := counters s r + 1)) \<and>
         (money s < price \<longrightarrow>
            money (buy price (resource_name r) s) = money s \<and>
            counters (buy price (resource_name r) s) = counters s)"
  using assms(4) by (auto simp add: buy_def Let_def counters_eq_iff)

theorem buy_primary_resource_witness:
  "(0::int) \<le> 1 \<and> safe_integer 1 \<and> safe_state init_state \<and>
   Milk \<in> {Milk, Bread, Plate} \<and> 1 \<le> money init_state \<and>
   money (buy 1 ''milk'' init_state) = 9 \<and>
   counters (buy 1 ''milk'' init_state) = (counters init_state)(Milk := 1) \<and>
   (0::int) \<le> 11 \<and> safe_integer 11 \<and> Plate \<in> {Milk, Bread, Plate} \<and>
   money init_state < 11 \<and>
   money (buy 11 ''plate'' init_state) = 10 \<and>
   counters (buy 11 ''plate'' init_state) = counters init_state"
proof -
  have prices: "safe_integer 1" "safe_integer 11"
    by (simp_all add: safe_integer_def max_safe_integer_def)
  have wallet: "money init_state = 10" and stock: "counters init_state Milk = 0"
    by (simp_all add: init_state_def)
  have bought: "1 \<le> money init_state \<longrightarrow>
      money (buy 1 (resource_name Milk) init_state) = money init_state - 1 \<and>
      counters (buy 1 (resource_name Milk) init_state) =
        (counters init_state)(Milk := counters init_state Milk + 1)"
    using buy_primary_resource [of 1 init_state Milk] prices(1) safe_state_init by simp
  have refused: "money init_state < 11 \<longrightarrow>
      money (buy 11 (resource_name Plate) init_state) = money init_state \<and>
      counters (buy 11 (resource_name Plate) init_state) = counters init_state"
    using buy_primary_resource [of 11 init_state Plate] prices(2) safe_state_init by simp
  show ?thesis
    using prices safe_state_init wallet stock bought refused by simp
qed

text \<open>
  Claim C6, as amended: for every resource name that is not milk, bread or plate, with
  the wallet, the counters and the price safe integers: when the wallet does not cover
  the price, \<open>buy\<close> leaves the wallet and every counter as they were and reports nothing;
  when the wallet covers the price (and the wallet less the price is a safe integer), it
  leaves the wallet and every counter as they were and reports the unknown item, by the
  message \<^verbatim>\<open>item not registered\<close> on the diagnostic channel.

  The claim as written promises the report for every price. The script looks at the name
  only inside the test that the wallet covers the price (line 35), so an unknown item
  that the wallet cannot pay for is not reported. Where the wallet covers the price the
  script takes the price and gives it back (lines 36 and 47); the wallet is as before
  when both steps are exact, hence the last bound, which holds of itself for a price at
  or above zero.
\<close>

theorem buy_unknown_item:
  assumes "item \<notin> {''milk'', ''bread'', ''plate''}"
    and "safe_integer price" and "safe_state s"
  shows "(money s < price \<longrightarrow>
            money (buy price item s) = money s \<and>
            counters (buy price item s) = counters s \<and>
            console (buy price item s) = console s) \<and>
         (price \<le> money s \<and> safe_integer (money s - price) \<longrightarrow>
            money (buy price item s) = money s \<and>
            counters (buy price item s) = counters s \<and>
            console (buy price item s) = console s @ [''item not registered''])"
  using assms(1) by (simp add: buy_def Let_def counters_eq_iff)

theorem buy_unknown_item_witness:
  "''gold'' \<notin> {''milk'', ''bread'', ''plate''} \<and> safe_integer 1 \<and> safe_integer 11 \<and>
   safe_state init_state \<and>
   money init_state < 11 \<and>
   money (buy 11 ''gold'' init_state) = 10 \<and>
   counters (buy 11 ''gold'' init_state) = counters init_state \<and>
   console (buy 11 ''gold'' init_state) = [] \<and>
   1 \<le> money init_state \<and> safe_integer (money init_state - 1) \<and>
   money (buy 1 ''gold'' init_state) = 10 \<and>
   counters (buy 1 ''gold'' init_state) = counters init_state \<and>
   console (buy 1 ''gold'' init_state) = [''item not registered'']"
proof -
  have name: "''gold'' \<notin> {''milk'', ''bread'', ''plate''}"
    by simp
  have prices: "safe_integer 1" "safe_integer 11"
    by (simp_all add: safe_integer_def max_safe_integer_def)
  have wallet: "money init_state = 10" and quiet: "console init_state = []"
    by (simp_all add: init_state_def)
  have rest: "safe_integer (money init_state - 1)"
    by (simp add: wallet safe_integer_def max_safe_integer_def)
  have refused: "money init_state < 11 \<longrightarrow>
      money (buy 11 ''gold'' init_state) = money init_state \<and>
      counters (buy 11 ''gold'' init_state) = counters init_state \<and>
      console (buy 11 ''gold'' init_state) = console init_state"
    using buy_unknown_item [OF name prices(2) safe_state_init] by simp
  have reported: "1 \<le> money init_state \<and> safe_integer (money init_state - 1) \<longrightarrow>
      money (buy 1 ''gold'' init_state) = money init_state \<and>
      counters (buy 1 ''gold'' init_state) = counters init_state \<and>
      console (buy 1 ''gold'' init_state) = console init_state @ [''item not registered'']"
    using buy_unknown_item [OF name prices(1) safe_state_init] by simp
  show ?thesis
    using name prices safe_state_init wallet quiet rest refused reported by simp
qed

text \<open>
  The claim as written fails at the initial state with the price 11: the name
  \<^verbatim>\<open>gold\<close> is not a primary resource, the wallet holds 10, and the call writes no
  diagnostic at all.
\<close>

theorem buy_unknown_item_unaffordable_silent:
  "''gold'' \<notin> {''milk'', ''bread'', ''plate''} \<and>
   console (buy 11 ''gold'' init_state) = [] \<and>
   console (buy 11 ''gold'' init_state) \<noteq> console init_state @ [''item not registered'']"
  by (simp add: init_state_def buy_def Let_def)

text \<open>
  Claim C10: for every price above the wallet and every resource name that is not milk,
  bread or plate, \<open>buy\<close> leaves all state unchanged and writes no diagnostic; the
  diagnostic appears only when the wallet covers the price, because the name is looked at
  inside the test on the wallet.

  The first part is stated on the whole record: every variable of the script and the
  diagnostic channel are as before, and the one assignment the call still makes is the
  last line of \<open>buy\<close>, which writes the unchanged amount into the wallet element again.
  The second part holds for every name and every price.
\<close>

theorem buy_unaffordable_unknown_item:
  "(money s < price \<and> item \<notin> {''milk'', ''bread'', ''plate''} \<longrightarrow>
      buy price item s = s\<lparr>display := '' $'' @ string_of_number (money s)\<rparr> \<and>
      money (buy price item s) = money s \<and>
      counters (buy price item s) = counters s \<and>
      console (buy price item s) = console s) \<and>
   (console (buy price item s) \<noteq> console s \<longrightarrow>
      price \<le> money s \<and> item \<notin> {''milk'', ''bread'', ''plate''})"
  by (simp add: buy_def Let_def counters_eq_iff)

theorem buy_unaffordable_unknown_item_witness:
  "money init_state < 11 \<and> ''gold'' \<notin> {''milk'', ''bread'', ''plate''} \<and>
   buy 11 ''gold'' init_state = init_state\<lparr>display := '' $'' @ string_of_number 10\<rparr> \<and>
   money (buy 11 ''gold'' init_state) = 10 \<and>
   counters (buy 11 ''gold'' init_state) = counters init_state \<and>
   console (buy 11 ''gold'' init_state) = [] \<and>
   console (buy 1 ''gold'' init_state) \<noteq> console init_state \<and>
   1 \<le> money init_state"
proof -
  have silent: "console (buy 1 ''gold'' init_state) \<noteq> console init_state"
    by (simp add: init_state_def buy_def Let_def)
  have poor: "money init_state < 11 \<and> ''gold'' \<notin> {''milk'', ''bread'', ''plate''}"
    by (simp add: init_state_def)
  show ?thesis
    using silent poor
      buy_unaffordable_unknown_item [of init_state 11 "''gold''"]
      buy_unaffordable_unknown_item [of init_state 1 "''gold''"]
    by (simp add: init_state_def counters_eq_iff)
qed

section \<open>craft\<close>

text \<open>
  Claim C4: in every state with at least one milk and at least one bread,
  \<open>craft ''milkbread''\<close> takes one milk and one bread, adds one milk bread, and changes
  nothing else; in every state where milk is zero or bread is zero it leaves all
  counters unchanged.

  Nothing else: the wallet, the other five counters and the diagnostic channel. In the
  second case the whole record is unchanged, the page elements included.
\<close>

theorem craft_milkbread_correct:
  "(1 \<le> milk s \<and> 1 \<le> bread s \<longrightarrow>
      counters (craft ''milkbread'' s) =
        (counters s)(Milk := milk s - 1, Bread := bread s - 1, Milkbread := milkbread s + 1) \<and>
      money (craft ''milkbread'' s) = money s \<and>
      console (craft ''milkbread'' s) = console s) \<and>
   (milk s = 0 \<or> bread s = 0 \<longrightarrow> craft ''milkbread'' s = s)"
  by (auto simp add: craft_def Let_def counters_eq_iff)

theorem craft_milkbread_correct_witness:
  "1 \<le> milk (run [Buy 1 ''milk'', Buy 1 ''bread''] init_state) \<and>
   1 \<le> bread (run [Buy 1 ''milk'', Buy 1 ''bread''] init_state) \<and>
   counters (craft ''milkbread'' (run [Buy 1 ''milk'', Buy 1 ''bread''] init_state)) =
     (counters (run [Buy 1 ''milk'', Buy 1 ''bread''] init_state))
       (Milk := 0, Bread := 0, Milkbread := 1) \<and>
   money (craft ''milkbread'' (run [Buy 1 ''milk'', Buy 1 ''bread''] init_state)) = 8 \<and>
   milk init_state = 0 \<and> craft ''milkbread'' init_state = init_state"
proof -
  have stocked:
    "milk (run [Buy 1 ''milk'', Buy 1 ''bread''] init_state) = 1"
    "bread (run [Buy 1 ''milk'', Buy 1 ''bread''] init_state) = 1"
    "milkbread (run [Buy 1 ''milk'', Buy 1 ''bread''] init_state) = 0"
    "money (run [Buy 1 ''milk'', Buy 1 ''bread''] init_state) = 8"
    by (simp_all add: init_state_def buy_def Let_def)
  have empty: "milk init_state = 0"
    by (simp add: init_state_def)
  show ?thesis
    using stocked empty
      craft_milkbread_correct [of "run [Buy 1 ''milk'', Buy 1 ''bread''] init_state"]
      craft_milkbread_correct [of init_state]
    by simp
qed

text \<open>
  Claim C9: from the initial state the session
  buy(1, milk); buy(1, bread); craft(milkbread); craft(milksandwich);
  buy(1, milk); buy(1, bread); craft(milkbread); craft(milksandwich)
  passes through milk 1 and money 9, then bread 1 and money 8, then milk 0, bread 0 and
  milk bread 1; its fourth call changes nothing (a milk sandwich needs two milk breads);
  after the seventh call there are two milk breads, and it ends with no milk bread and
  one milk sandwich.
\<close>

theorem recipe_chain_scenario:
  "money init_state = 10 \<and>
   milk (run (take 1 chain) init_state) = 1 \<and> money (run (take 1 chain) init_state) = 9 \<and>
   bread (run (take 2 chain) init_state) = 1 \<and> money (run (take 2 chain) init_state) = 8 \<and>
   milk (run (take 3 chain) init_state) = 0 \<and> bread (run (take 3 chain) init_state) = 0 \<and>
   milkbread (run (take 3 chain) init_state) = 1 \<and>
   run (take 4 chain) init_state = run (take 3 chain) init_state \<and>
   milkbread (run (take 7 chain) init_state) = 2 \<and>
   milkbread (run chain init_state) = 0 \<and> milksandwich (run chain init_state) = 1"
  by (simp add: chain_def init_state_def buy_def craft_def Let_def)

section \<open>sell\<close>

text \<open>
  Claim C5: for every price at or above zero and every sellable resource \<open>r\<close> (milk bread,
  milk sandwich, milk meal, cheese sandwich): if at least one \<open>r\<close> is in stock, \<open>sell\<close>
  takes one from the counter of \<open>r\<close> and adds the price to the wallet.

  The wallet, the counters, the price and the new balance are safe integers, so that the
  script computes the sum exactly. The theorem also says that no other counter moves.
\<close>

theorem sell_in_stock:
  assumes "0 \<le> price" and "safe_integer price" and "safe_state s"
    and "safe_integer (money s + price)"
    and "r \<in> {Milkbread, Milksandwich, Milkmeal, Cheesesandwich}"
    and "1 \<le> counters s r"
  shows "money (sell price (resource_name r) s) = money s + price \<and>
         counters (sell price (resource_name r) s) = (counters s)(r := counters s r - 1)"
  using assms(5,6) by (auto simp add: sell_def Let_def counters_eq_iff)

theorem sell_in_stock_witness:
  "(0::int) \<le> 3 \<and> safe_integer 3 \<and> safe_state one_milkbread \<and>
   safe_integer (money one_milkbread + 3) \<and>
   Milkbread \<in> {Milkbread, Milksandwich, Milkmeal, Cheesesandwich} \<and>
   1 \<le> counters one_milkbread Milkbread \<and>
   money (sell 3 ''milkbread'' one_milkbread) = 11 \<and>
   counters (sell 3 ''milkbread'' one_milkbread) = (counters one_milkbread)(Milkbread := 0)"
proof -
  have price: "safe_integer 3"
    by (simp add: safe_integer_def max_safe_integer_def)
  have balance: "safe_integer (money one_milkbread + 3)"
    by (simp add: safe_integer_def max_safe_integer_def one_milkbread_fields)
  have stock: "1 \<le> counters one_milkbread Milkbread"
    by (simp add: one_milkbread_fields)
  have sold:
    "money (sell 3 (resource_name Milkbread) one_milkbread) = money one_milkbread + 3 \<and>
     counters (sell 3 (resource_name Milkbread) one_milkbread) =
       (counters one_milkbread)(Milkbread := counters one_milkbread Milkbread - 1)"
    using sell_in_stock [of 3 one_milkbread Milkbread] price balance stock
      safe_state_one_milkbread
    by simp
  show ?thesis
    using price balance stock safe_state_one_milkbread sold
    by (simp add: one_milkbread_fields)
qed

text \<open>
  Claim C7: for every price and each of milk bread, milk sandwich and milk meal, \<open>sell\<close>
  with none of that resource in stock leaves the wallet and every counter unchanged, in
  silence.

  The theorem gives the whole record unchanged: no variable, no page element and no
  diagnostic is written.
\<close>

theorem sell_out_of_stock_noop:
  assumes "r \<in> {Milkbread, Milksandwich, Milkmeal}" and "counters s r = 0"
  shows "sell price (resource_name r) s = s"
  using assms by (auto simp add: sell_def)

theorem sell_out_of_stock_noop_witness:
  "Milksandwich \<in> {Milkbread, Milksandwich, Milkmeal} \<and>
   counters init_state Milksandwich = 0 \<and>
   sell 5 ''milksandwich'' init_state = init_state"
  using sell_out_of_stock_noop [of Milksandwich init_state 5]
  by (simp add: init_state_def)

section \<open>What each operation may change\<close>

text \<open>
  Claim C8, as amended: the wallet changes only through \<open>buy\<close> (down by the price) and
  \<open>sell\<close> (up by the price), and \<open>craft\<close> leaves it unchanged; the resource counters
  change only through \<open>buy\<close> (one primary counter up by one), through the application of
  a recipe (inputs down, output up by one), or through \<open>sell\<close> (one sellable counter down
  by one). This is for a state and a price of safe integers, with the wallet less the
  price and the wallet plus the price safe integers too, so that the script computes
  both exactly.

  The claim as written names only \<open>buy\<close> and the recipes as the ways a counter changes;
  a sale takes the sold unit from its counter. The theorem lists, for each function, every
  effect it can have on the wallet and the counters.
\<close>

theorem frame_of_operations:
  assumes "safe_state s" and "safe_integer price"
    and "safe_integer (money s - price)" and "safe_integer (money s + price)"
  shows
  "money (craft item s) = money s \<and>
   (money (buy price item s) = money s \<and> counters (buy price item s) = counters s \<or>
    money (buy price item s) = money s - price \<and>
    (\<exists>r \<in> {Milk, Bread, Plate}. item = resource_name r \<and>
       counters (buy price item s) = (counters s)(r := counters s r + 1))) \<and>
   (money (sell price item s) = money s \<and> counters (sell price item s) = counters s \<or>
    money (sell price item s) = money s + price \<and>
    (\<exists>r \<in> {Milkbread, Milksandwich, Milkmeal, Cheesesandwich}. item = resource_name r \<and>
       counters (sell price item s) = (counters s)(r := counters s r - 1))) \<and>
   (counters (craft item s) = counters s \<or>
    item = ''milkbread'' \<and> counters (craft item s) =
      (counters s)(Milk := milk s - 1, Bread := bread s - 1, Milkbread := milkbread s + 1) \<or>
    item = ''milksandwich'' \<and> counters (craft item s) =
      (counters s)(Milkbread := milkbread s - 2, Milksandwich := milksandwich s + 1) \<or>
    item = ''milkmeal'' \<and> counters (craft item s) =
      (counters s)(Milksandwich := milksandwich s - 1, Milk := milk s - 1,
                   Plate := plate s - 1, Milkmeal := milkmeal s + 1) \<or>
    item = ''cheese'' \<and> counters (craft item s) =
      (counters s)(Milk := milk s - 1, Cheese := cheese s + 1) \<or>
    item = ''cheesesandwich'' \<and> counters (craft item s) =
      (counters s)(Cheese := cheese s - 1, Bread := bread s - 2,
                   Cheesesandwich := cheesesandwich s + 1))"
proof -
  have wallet_craft: "money (craft item s) = money s"
    by (simp add: craft_def Let_def)
  have of_buy:
    "money (buy price item s) = money s \<and> counters (buy price item s) = counters s \<or>
     money (buy price item s) = money s - price \<and>
     (\<exists>r \<in> {Milk, Bread, Plate}. item = resource_name r \<and>
        counters (buy price item s) = (counters s)(r := counters s r + 1))"
    by (simp add: buy_def Let_def counters_eq_iff)
  have of_sell:
    "money (sell price item s) = money s \<and> counters (sell price item s) = counters s \<or>
     money (sell price item s) = money s + price \<and>
     (\<exists>r \<in> {Milkbread, Milksandwich, Milkmeal, Cheesesandwich}. item = resource_name r \<and>
        counters (sell price item s) = (counters s)(r := counters s r - 1))"
    by (simp add: sell_def Let_def counters_eq_iff)
  have of_craft:
    "counters (craft item s) = counters s \<or>
     item = ''milkbread'' \<and> counters (craft item s) =
       (counters s)(Milk := milk s - 1, Bread := bread s - 1, Milkbread := milkbread s + 1) \<or>
     item = ''milksandwich'' \<and> counters (craft item s) =
       (counters s)(Milkbread := milkbread s - 2, Milksandwich := milksandwich s + 1) \<or>
     item = ''milkmeal'' \<and> counters (craft item s) =
       (counters s)(Milksandwich := milksandwich s - 1, Milk := milk s - 1,
                    Plate := plate s - 1, Milkmeal := milkmeal s + 1) \<or>
     item = ''cheese'' \<and> counters (craft item s) =
       (counters s)(Milk := milk s - 1, Cheese := cheese s + 1) \<or>
     item = ''cheesesandwich'' \<and> counters (craft item s) =
       (counters s)(Cheese := cheese s - 1, Bread := bread s - 2,
                    Cheesesandwich := cheesesandwich s + 1)"
    by (simp add: craft_def Let_def counters_eq_iff)
  from wallet_craft of_buy of_sell of_craft show ?thesis
    by blast
qed

theorem frame_of_operations_witness:
  "safe_state one_milkbread \<and> safe_integer 3 \<and>
   safe_integer (money one_milkbread - 3) \<and> safe_integer (money one_milkbread + 3) \<and>
   money (craft ''milkbread'' one_milkbread) = money one_milkbread \<and>
   (money (sell 3 ''milkbread'' one_milkbread) = money one_milkbread \<and>
    counters (sell 3 ''milkbread'' one_milkbread) = counters one_milkbread \<or>
    money (sell 3 ''milkbread'' one_milkbread) = money one_milkbread + 3 \<and>
    (\<exists>r \<in> {Milkbread, Milksandwich, Milkmeal, Cheesesandwich}.
       ''milkbread'' = resource_name r \<and>
       counters (sell 3 ''milkbread'' one_milkbread) =
         (counters one_milkbread)(r := counters one_milkbread r - 1)))"
proof -
  have price: "safe_integer 3"
    by (simp add: safe_integer_def max_safe_integer_def)
  have less: "safe_integer (money one_milkbread - 3)"
    and more: "safe_integer (money one_milkbread + 3)"
    by (simp_all add: safe_integer_def max_safe_integer_def one_milkbread_fields)
  note frame =
    frame_of_operations [OF safe_state_one_milkbread price less more, of "''milkbread''"]
  from frame have kept: "money (craft ''milkbread'' one_milkbread) = money one_milkbread"
    by (rule conjunct1)
  from frame have sale:
    "money (sell 3 ''milkbread'' one_milkbread) = money one_milkbread \<and>
     counters (sell 3 ''milkbread'' one_milkbread) = counters one_milkbread \<or>
     money (sell 3 ''milkbread'' one_milkbread) = money one_milkbread + 3 \<and>
     (\<exists>r \<in> {Milkbread, Milksandwich, Milkmeal, Cheesesandwich}.
        ''milkbread'' = resource_name r \<and>
        counters (sell 3 ''milkbread'' one_milkbread) =
          (counters one_milkbread)(r := counters one_milkbread r - 1))"
    by blast
  from safe_state_one_milkbread price less more kept sale show ?thesis
    by blast
qed

text \<open>
  The claim as written fails in the state with one milk bread: selling it moves the
  counter of milk bread from one to zero, by neither a purchase nor a recipe.
\<close>

theorem sell_changes_counter:
  "counters one_milkbread Milkbread = 1 \<and>
   counters (sell 3 ''milkbread'' one_milkbread) Milkbread = 0 \<and>
   counters (sell 3 ''milkbread'' one_milkbread) \<noteq> counters one_milkbread"
proof -
  have before: "counters one_milkbread Milkbread = 1"
    by (simp add: one_milkbread_fields)
  have after: "counters (sell 3 ''milkbread'' one_milkbread) Milkbread = 0"
    by (simp add: sell_def Let_def one_milkbread_fields)
  from before after
  have "counters (sell 3 ''milkbread'' one_milkbread) Milkbread \<noteq> counters one_milkbread Milkbread"
    by simp
  then have "counters (sell 3 ''milkbread'' one_milkbread) \<noteq> counters one_milkbread"
    by (simp add: counters_eq_iff)
  with before after show ?thesis by simp
qed

end
